theory Spec2Isabelle
  imports Main "HOL-Library.AList"
begin

section \<open>JavaScript values\<close>

text \<open>
  The API layer (\<^verbatim>\<open>lib/api.js\<close>) and the form controller (\<^verbatim>\<open>components/UserForm.js\<close>)
  handle untyped JavaScript values. The values that reach the code are modelled by
  \<open>jsval\<close>: the primitives, arrays and plain objects (a plain object is the list of its
  own properties in creation order, keys distinct). Numbers are the integers and NaN;
  fractional numbers and infinities are not modelled. A string is a list of code units
  below 256. Date objects are kept apart (type \<open>jsarg\<close> below): their conversion to a
  string depends on the time zone of the host, and no function that converts a value to a
  string is handed a Date by this program.
\<close>

datatype jsval =
    JUndefined
  | JNull
  | JBool bool
  | JNum int
  | JNaN
  | JStr string
  | JArr "jsval list"
  | JObj "(string \<times> jsval) list"

text \<open>Errors are values: the constructor is the class of the thrown object, the string
  its \<^verbatim>\<open>message\<close>.\<close>

datatype js_error =
    Error string
  | TypeError string
  | RangeError string
  | SyntaxError string

fun message :: "js_error \<Rightarrow> string" where
  "message (Error m) = m"
| "message (TypeError m) = m"
| "message (RangeError m) = m"
| "message (SyntaxError m) = m"

text \<open>\<^verbatim>\<open>ToBoolean\<close>: the falsy values are undefined, null, false, 0, NaN and the empty string.\<close>

fun truthy :: "jsval \<Rightarrow> bool" where
  "truthy JUndefined = False"
| "truthy JNull = False"
| "truthy (JBool b) = b"
| "truthy (JNum n) = (n \<noteq> 0)"
| "truthy JNaN = False"
| "truthy (JStr s) = (s \<noteq> [])"
| "truthy (JArr xs) = True"
| "truthy (JObj ps) = True"

text \<open>\<^verbatim>\<open>a || b\<close> on values.\<close>

definition js_or :: "jsval \<Rightarrow> jsval \<Rightarrow> jsval" where
  "js_or a b = (if truthy a then a else b)"

text \<open>Decimal rendering of a number, as \<^verbatim>\<open>ToString\<close> and template literals do for integers
  (below \<open>10\<^sup>2\<^sup>1\<close> in magnitude).\<close>

fun show_nat :: "nat \<Rightarrow> string" where
  "show_nat n =
     (if n < 10 then [''0123456789'' ! n]
      else show_nat (n div 10) @ [''0123456789'' ! (n mod 10)])"

declare show_nat.simps [simp del]

definition show_int :: "int \<Rightarrow> string" where
  "show_int i = (if i < 0 then CHR ''-'' # show_nat (nat (- i)) else show_nat (nat i))"

text \<open>\<^verbatim>\<open>Array.prototype.join\<close> on strings.\<close>

fun join :: "string \<Rightarrow> string list \<Rightarrow> string" where
  "join sep [] = []"
| "join sep [x] = x"
| "join sep (x # y # ys) = x @ sep @ join sep (y # ys)"

text \<open>\<^verbatim>\<open>ToString\<close>. An array is its elements joined by commas, undefined and null elements
  giving the empty string; a plain object is \<^verbatim>\<open>[object Object]\<close>.\<close>

fun ToString :: "jsval \<Rightarrow> string" where
  "ToString JUndefined = ''undefined''"
| "ToString JNull = ''null''"
| "ToString (JBool b) = (if b then ''true'' else ''false'')"
| "ToString (JNum n) = show_int n"
| "ToString JNaN = ''NaN''"
| "ToString (JStr s) = s"
| "ToString (JArr xs) =
     join '','' (map (\<lambda>x. if x = JUndefined \<or> x = JNull then [] else ToString x) xs)"
| "ToString (JObj ps) = ''[object Object]''"

text \<open>Reading a property \<^verbatim>\<open>v.k\<close>, for the property names this program reads (none of them
  is a property of a primitive's prototype): a TypeError on undefined and null, the own
  property of a plain object, undefined otherwise.\<close>

fun get_prop :: "jsval \<Rightarrow> string \<Rightarrow> js_error + jsval" where
  "get_prop JUndefined k = Inl (TypeError (''Cannot read properties of undefined (reading '' @ k @ '')''))"
| "get_prop JNull k = Inl (TypeError (''Cannot read properties of null (reading '' @ k @ '')''))"
| "get_prop (JObj ps) k = Inr (case map_of ps k of None \<Rightarrow> JUndefined | Some v \<Rightarrow> v)"
| "get_prop v k = Inr JUndefined"

section \<open>Response unwrapper\<close>

text \<open>
  A \<^verbatim>\<open>Response\<close> of the Fetch API, as far as \<^verbatim>\<open>handleResponse\<close> reads it: the status
  code and the body. \<open>body = None\<close> is a body that is not JSON, on which
  \<^verbatim>\<open>response.json()\<close> rejects with a SyntaxError. \<^verbatim>\<open>response.ok\<close> is defined by the
  Fetch standard as the status lying in 200..299.
\<close>

record response =
  status :: nat
  body :: "jsval option"

definition ok :: "response \<Rightarrow> bool" where
  "ok r = (200 \<le> status r \<and> status r \<le> 299)"

text \<open>
  \<^verbatim>\<open>
  const handleResponse = async (response) => {
    const data = await response.json();
    if (!response.ok) {
      throw new Error(data.payload || `HTTP error! status: ${response.status}`);
    }
    if (data.error) {
      throw new Error(data.payload || "An error occurred");
    }
    return data.payload;
  };
  \<close>
\<close>

definition handleResponse :: "response \<Rightarrow> js_error + jsval" where
  "handleResponse r =
     (case body r of
        None \<Rightarrow> Inl (SyntaxError ''Unexpected token in JSON'')
      | Some data \<Rightarrow>
          if \<not> ok r then
            (case get_prop data ''payload'' of
               Inl e \<Rightarrow> Inl e
             | Inr p \<Rightarrow>
                 Inl (Error (ToString
                   (js_or p (JStr (''HTTP error! status: '' @ show_nat (status r)))))))
          else
            (case get_prop data ''error'' of
               Inl e \<Rightarrow> Inl e
             | Inr er \<Rightarrow>
                 if truthy er then
                   (case get_prop data ''payload'' of
                      Inl e \<Rightarrow> Inl e
                    | Inr p \<Rightarrow> Inl (Error (ToString (js_or p (JStr ''An error occurred'')))))
                 else get_prop data ''payload''))"

section \<open>Query builder\<close>

text \<open>Character classes, by code unit.\<close>

definition is_digit :: "char \<Rightarrow> bool" where
  "is_digit c = (let n = (of_char c :: nat) in 48 \<le> n \<and> n \<le> 57)"

definition is_alpha :: "char \<Rightarrow> bool" where
  "is_alpha c = (let n = (of_char c :: nat) in (65 \<le> n \<and> n \<le> 90) \<or> (97 \<le> n \<and> n \<le> 122))"

text \<open>The characters \<^verbatim>\<open>encodeURIComponent\<close> leaves alone: letters, digits and
  \<^verbatim>\<open>- _ . ! ~ * ' ( )\<close>.\<close>

definition uri_unreserved :: "char \<Rightarrow> bool" where
  "uri_unreserved c =
     (is_alpha c \<or> is_digit c \<or> (of_char c :: nat) \<in> {45, 95, 46, 33, 126, 42, 39, 40, 41})"

definition hex_digit :: "nat \<Rightarrow> char" where
  "hex_digit d = ''0123456789ABCDEF'' ! d"

definition pct :: "nat \<Rightarrow> string" where
  "pct b = [CHR ''%'', hex_digit (b div 16), hex_digit (b mod 16)]"

text \<open>One code unit: itself when unreserved, else the octets of its UTF-8 encoding, each as
  \<^verbatim>\<open>%XX\<close> (one octet below 128, two octets from 128 to 255).\<close>

definition encode_unit :: "char \<Rightarrow> string" where
  "encode_unit c =
     (if uri_unreserved c then [c]
      else (let n = (of_char c :: nat) in
            if n < 128 then pct n else pct (192 + n div 64) @ pct (128 + n mod 64)))"

definition encodeURIComponent :: "string \<Rightarrow> string" where
  "encodeURIComponent s = concat (map encode_unit s)"

text \<open>
  \<^verbatim>\<open>Object.entries\<close> lists the own properties of an object in the order of
  \<^verbatim>\<open>OrdinaryOwnPropertyKeys\<close>: the keys that are array indices (canonical decimal numerals
  below \<open>2\<^sup>3\<^sup>2 - 1\<close>) first, in ascending numeric order, then the other keys in the order
  of their creation.
\<close>

definition nat_of_digits :: "string \<Rightarrow> nat" where
  "nat_of_digits s = foldl (\<lambda>a c. 10 * a + (of_char c - 48)) 0 s"

definition is_array_index :: "string \<Rightarrow> bool" where
  "is_array_index k =
     (k \<noteq> [] \<and> list_all is_digit k \<and> (k = ''0'' \<or> hd k \<noteq> CHR ''0'')
      \<and> length k \<le> 10 \<and> nat_of_digits k < 4294967295)"

definition Object_entries :: "(string \<times> jsval) list \<Rightarrow> (string \<times> jsval) list" where
  "Object_entries ps =
     sort_key (\<lambda>p. nat_of_digits (fst p)) (filter (\<lambda>p. is_array_index (fst p)) ps)
     @ filter (\<lambda>p. \<not> is_array_index (fst p)) ps"

text \<open>
  \<^verbatim>\<open>
  const buildQueryString = (params) => {
    const filteredParams = Object.entries(params)
      .filter(([, value]) => value !== undefined && value !== null && value !== "")
      .map(([key, value]) => `${encodeURIComponent(key)}=${encodeURIComponent(value)}`)
      .join("&");
    return filteredParams ? `?${filteredParams}` : "";
  };
  \<close>
\<close>

definition keep_param :: "string \<times> jsval \<Rightarrow> bool" where
  "keep_param p = (snd p \<noteq> JUndefined \<and> snd p \<noteq> JNull \<and> snd p \<noteq> JStr [])"

definition encode_param :: "string \<times> jsval \<Rightarrow> string" where
  "encode_param p = encodeURIComponent (fst p) @ ''='' @ encodeURIComponent (ToString (snd p))"

definition buildQueryString :: "(string \<times> jsval) list \<Rightarrow> string" where
  "buildQueryString params =
     (let filteredParams = join ''&'' (map encode_param (filter keep_param (Object_entries params)))
      in if filteredParams \<noteq> [] then ''?'' @ filteredParams else [])"

text \<open>\<^verbatim>\<open>String.prototype.split\<close> at a one-character separator, to read a query string
  back into its segments.\<close>

fun split_on :: "char \<Rightarrow> string \<Rightarrow> string list" where
  "split_on c [] = [[]]"
| "split_on c (x # xs) =
     (if x = c then [] # split_on c xs
      else (case split_on c xs of [] \<Rightarrow> [[x]] | y # ys \<Rightarrow> (x # y) # ys))"

section \<open>API client\<close>

text \<open>
  A request as \<^verbatim>\<open>fetch\<close> receives it (\<open>http_method\<close> is its \<^verbatim>\<open>method\<close>);
  \<open>payload\<close> is the value whose JSON text is the body. The network is a parameter: a
  function from the request to the response, or to the error \<^verbatim>\<open>fetch\<close> rejects with.
  Every operation returns its result together with the requests it has issued, so that
  "before any request" is a statement about that list. The operations take the value of
  \<^verbatim>\<open>API_BASE_URL\<close> as their first argument \<open>base\<close>. The logging to the console is
  left out.
\<close>

record request =
  url :: string
  http_method :: string
  headers :: "(string \<times> string) list"
  payload :: "jsval option"

type_synonym network = "request \<Rightarrow> js_error + response"

text \<open>\<^verbatim>\<open>const API_BASE_URL = process.env.NEXT_PUBLIC_API_URL || "http://localhost:3000";\<close>
  with the environment variable as the parameter (undefined when unset).\<close>

definition API_BASE_URL :: "jsval \<Rightarrow> string" where
  "API_BASE_URL env_url = ToString (js_or env_url (JStr ''http://localhost:3000''))"

definition json_headers :: "(string \<times> string) list" where
  "json_headers = [(''Content-Type'', ''application/json'')]"

text \<open>\<^verbatim>\<open>fetch\<close> followed by \<^verbatim>\<open>handleResponse\<close>, the tail shared by the five operations.\<close>

definition send :: "network \<Rightarrow> request \<Rightarrow> (js_error + jsval) \<times> request list" where
  "send net req =
     (case net req of
        Inl e \<Rightarrow> (Inl e, [req])
      | Inr resp \<Rightarrow> (handleResponse resp, [req]))"

definition obj_get :: "(string \<times> jsval) list \<Rightarrow> string \<Rightarrow> jsval" where
  "obj_get ps k = (case map_of ps k of None \<Rightarrow> JUndefined | Some v \<Rightarrow> v)"

text \<open>
  \<^verbatim>\<open>
  export const getUsers = async (filters = {}, pagination = {}) => {
    try {
      const params = {
        name: filters.name, email: filters.email, country: filters.country,
        fromDate: filters.fromDate, toDate: filters.toDate, search: filters.search,
        page: pagination.page || 1, limit: pagination.limit || 10,
        sortBy: pagination.sortBy || "createdAt", sortOrder: pagination.sortOrder || "DESC",
      };
      const queryString = buildQueryString(params);
      const response = await fetch(`${API_BASE_URL}/api/users${queryString}`,
        { method: "GET", headers: { "Content-Type": "application/json" } });
      return await handleResponse(response);
    } catch (error) { console.error("Error fetching users:", error); throw error; }
  };
  \<close>
  The two arguments are objects (an omitted argument is the empty object).
\<close>

definition getUsers_params ::
  "(string \<times> jsval) list \<Rightarrow> (string \<times> jsval) list \<Rightarrow> (string \<times> jsval) list" where
  "getUsers_params filters pagination =
     [(''name'', obj_get filters ''name''),
      (''email'', obj_get filters ''email''),
      (''country'', obj_get filters ''country''),
      (''fromDate'', obj_get filters ''fromDate''),
      (''toDate'', obj_get filters ''toDate''),
      (''search'', obj_get filters ''search''),
      (''page'', js_or (obj_get pagination ''page'') (JNum 1)),
      (''limit'', js_or (obj_get pagination ''limit'') (JNum 10)),
      (''sortBy'', js_or (obj_get pagination ''sortBy'') (JStr ''createdAt'')),
      (''sortOrder'', js_or (obj_get pagination ''sortOrder'') (JStr ''DESC''))]"

definition getUsers ::
  "string \<Rightarrow> network \<Rightarrow> (string \<times> jsval) list \<Rightarrow> (string \<times> jsval) list
     \<Rightarrow> (js_error + jsval) \<times> request list" where
  "getUsers base net filters pagination =
     (let params = getUsers_params filters pagination;
          queryString = buildQueryString params
      in send net \<lparr>url = base @ ''/api/users'' @ queryString, http_method = ''GET'',
                    headers = json_headers, payload = None\<rparr>)"

text \<open>
  \<^verbatim>\<open>
  export const getUserById = async (id) => {
    try {
      if (!id) { throw new Error("User ID is required"); }
      const response = await fetch(`${API_BASE_URL}/api/users/${id}`,
        { method: "GET", headers: { "Content-Type": "application/json" } });
      return await handleResponse(response);
    } catch (error) { console.error(`Error fetching user ${id}:`, error); throw error; }
  };
  \<close>
\<close>

definition getUserById ::
  "string \<Rightarrow> network \<Rightarrow> jsval \<Rightarrow> (js_error + jsval) \<times> request list" where
  "getUserById base net uid =
     (if \<not> truthy uid then (Inl (Error ''User ID is required''), [])
      else send net \<lparr>url = base @ ''/api/users/'' @ ToString uid, http_method = ''GET'',
                      headers = json_headers, payload = None\<rparr>)"

text \<open>\<^verbatim>\<open>createUser\<close> and \<^verbatim>\<open>updateUser\<close>: the same shape, with the guards on the
  arguments first and the data as the JSON body (\<open>uid\<close> is the source's \<^verbatim>\<open>id\<close>).\<close>

definition createUser ::
  "string \<Rightarrow> network \<Rightarrow> jsval \<Rightarrow> (js_error + jsval) \<times> request list" where
  "createUser base net userData =
     (if \<not> truthy userData then (Inl (Error ''User data is required''), [])
      else send net \<lparr>url = base @ ''/api/users'', http_method = ''POST'',
                      headers = json_headers, payload = Some userData\<rparr>)"

definition updateUser ::
  "string \<Rightarrow> network \<Rightarrow> jsval \<Rightarrow> jsval \<Rightarrow> (js_error + jsval) \<times> request list" where
  "updateUser base net uid userData =
     (if \<not> truthy uid then (Inl (Error ''User ID is required''), [])
      else if \<not> truthy userData then (Inl (Error ''User data is required''), [])
      else send net \<lparr>url = base @ ''/api/users/'' @ ToString uid, http_method = ''PUT'',
                      headers = json_headers, payload = Some userData\<rparr>)"

section \<open>Date formatter\<close>

text \<open>
  A Date object is its time value: milliseconds since the epoch, or NaN (\<open>None\<close>, an
  "Invalid Date"). The host keeps a valid time value within \<open>8.64 \<times> 10\<^sup>1\<^sup>5\<close> of the epoch
  (\<open>in_time_range\<close>). The argument of the formatter is any value or a Date object.
\<close>

type_synonym jsdate = "int option"

datatype jsarg = Val jsval | DateObj jsdate

definition in_time_range :: "int \<Rightarrow> bool" where
  "in_time_range t = (- 8640000000000000 \<le> t \<and> t \<le> 8640000000000000)"

definition ms_per_day :: int where
  "ms_per_day = 86400000"

text \<open>The proleptic Gregorian date (year, month 1..12, day of the month) of a day number
  counted from 1 January 1970, which is what \<^verbatim>\<open>YearFromTime\<close>, \<^verbatim>\<open>MonthFromTime\<close> and
  \<^verbatim>\<open>DateFromTime\<close> of the language standard compute. Years are counted from 1 March inside
  a 400-year era, so that the leap day is the last day of its year.\<close>

definition civil_from_days :: "int \<Rightarrow> int \<times> int \<times> int" where
  "civil_from_days z0 =
     (let z = z0 + 719468;
          era = z div 146097;
          doe = z mod 146097;
          yoe = (doe - doe div 1460 + doe div 36524 - doe div 146096) div 365;
          y = yoe + era * 400;
          doy = doe - (365 * yoe + yoe div 4 - yoe div 100);
          mp = (5 * doy + 2) div 153;
          d = doy - (153 * mp + 2) div 5 + 1;
          m = (if mp < 10 then mp + 3 else mp - 9)
      in (if m \<le> 2 then y + 1 else y, m, d))"

definition utc_date :: "int \<Rightarrow> int \<times> int \<times> int" where
  "utc_date t = civil_from_days (t div ms_per_day)"

text \<open>Fixed-width decimal fields.\<close>

definition digit_char :: "int \<Rightarrow> char" where
  "digit_char k = ''0123456789'' ! nat (k mod 10)"

definition two_digits :: "int \<Rightarrow> string" where
  "two_digits k = [digit_char (k div 10), digit_char k]"

definition three_digits :: "int \<Rightarrow> string" where
  "three_digits k = [digit_char (k div 100), digit_char (k div 10), digit_char k]"

definition four_digits :: "int \<Rightarrow> string" where
  "four_digits k = two_digits (k div 100) @ two_digits k"

definition six_digits :: "int \<Rightarrow> string" where
  "six_digits k = two_digits (k div 10000) @ four_digits k"

text \<open>The year of an ISO string: four digits from 0 to 9999, otherwise a sign and six
  digits.\<close>

definition iso_year :: "int \<Rightarrow> string" where
  "iso_year y =
     (if 0 \<le> y \<and> y \<le> 9999 then four_digits y
      else if y < 0 then CHR ''-'' # six_digits (- y)
      else CHR ''+'' # six_digits y)"

definition iso_date :: "int \<times> int \<times> int \<Rightarrow> string" where
  "iso_date ymd =
     (case ymd of (y, m, d) \<Rightarrow> iso_year y @ ''-'' @ two_digits m @ ''-'' @ two_digits d)"

definition iso_time :: "int \<Rightarrow> string" where
  "iso_time t =
     (let ms = t mod ms_per_day
      in two_digits (ms div 3600000) @ '':'' @ two_digits (ms div 60000 mod 60) @ '':''
         @ two_digits (ms div 1000 mod 60) @ ''.'' @ three_digits (ms mod 1000))"

text \<open>\<^verbatim>\<open>Date.prototype.toISOString\<close>: a RangeError on an invalid Date, else
  \<^verbatim>\<open>YYYY-MM-DDTHH:mm:ss.sssZ\<close> in UTC.\<close>

definition toISOString :: "jsdate \<Rightarrow> js_error + string" where
  "toISOString d =
     (case d of
        None \<Rightarrow> Inl (RangeError ''Invalid time value'')
      | Some t \<Rightarrow> Inr (iso_date (utc_date t) @ ''T'' @ iso_time t @ ''Z''))"

text \<open>\<^verbatim>\<open>/^\d{4}-\d{2}-\d{2}$/.test(s)\<close>\<close>

definition matches_ymd :: "string \<Rightarrow> bool" where
  "matches_ymd s =
     (length s = 10 \<and> list_all is_digit (take 4 s) \<and> s ! 4 = CHR ''-''
      \<and> list_all is_digit (take 2 (drop 5 s)) \<and> s ! 7 = CHR ''-''
      \<and> list_all is_digit (drop 8 s))"

text \<open>
  \<^verbatim>\<open>
  export const formatDateForAPI = (date) => {
    if (!date) return null;
    if (typeof date === "string" && /^\d{4}-\d{2}-\d{2}$/.test(date)) { return date; }
    if (date instanceof Date) { return date.toISOString().split("T")[0]; }
    return null;
  };
  \<close>
  A Date object is truthy, whatever its time value; \<^verbatim>\<open>split("T")[0]\<close> is the text before
  the first \<^verbatim>\<open>T\<close>.
\<close>

fun formatDateForAPI :: "jsarg \<Rightarrow> js_error + jsval" where
  "formatDateForAPI (Val v) =
     (if \<not> truthy v then Inr JNull
      else (case v of
              JStr s \<Rightarrow> if matches_ymd s then Inr (JStr s) else Inr JNull
            | _ \<Rightarrow> Inr JNull))"
| "formatDateForAPI (DateObj d) =
     (case toISOString d of
        Inl e \<Rightarrow> Inl e
      | Inr s \<Rightarrow> Inr (JStr (takeWhile (\<lambda>c. c \<noteq> CHR ''T'') s)))"

declare formatDateForAPI.simps [simp del]

text \<open>The formatter applied to its own output (an error of the first application is the
  error of the whole).\<close>

definition formatDateForAPI_twice :: "jsarg \<Rightarrow> js_error + jsval" where
  "formatDateForAPI_twice x =
     (case formatDateForAPI x of Inl e \<Rightarrow> Inl e | Inr v \<Rightarrow> formatDateForAPI (Val v))"

section \<open>Validators\<close>

text \<open>White space as \<^verbatim>\<open>String.prototype.trim\<close> and the class \<^verbatim>\<open>\s\<close> understand it, among
  the code units below 256: tab, line feed, vertical tab, form feed, carriage return,
  space and no-break space.\<close>

definition is_space :: "char \<Rightarrow> bool" where
  "is_space c = ((of_char c :: nat) \<in> {9, 10, 11, 12, 13, 32, 160})"

definition trim :: "string \<Rightarrow> string" where
  "trim s = rev (dropWhile is_space (rev (dropWhile is_space s)))"

text \<open>\<^verbatim>\<open>/^[a-zA-Z\s]+$/\<close>\<close>

definition matches_letters :: "string \<Rightarrow> bool" where
  "matches_letters s = (s \<noteq> [] \<and> list_all (\<lambda>c. is_alpha c \<or> is_space c) s)"

text \<open>\<^verbatim>\<open>/^[+]?[\d\s\-\(\)]{10,15}$/\<close>: an optional plus sign, then 10 to 15 characters of the
  class. The plus sign is not in the class, so a leading one can only be the optional one.\<close>

definition phone_char :: "char \<Rightarrow> bool" where
  "phone_char c = (is_digit c \<or> is_space c \<or> c = CHR ''-'' \<or> c = CHR ''('' \<or> c = CHR '')'')"

definition matches_phone :: "string \<Rightarrow> bool" where
  "matches_phone s =
     (let t = (case s of [] \<Rightarrow> [] | c # cs \<Rightarrow> if c = CHR ''+'' then cs else s)
      in 10 \<le> length t \<and> length t \<le> 15 \<and> list_all phone_char t)"

text \<open>\<^verbatim>\<open>/^[^\s@]+@[^\s@]+\.[^\s@]+$/\<close>: the text before the first \<^verbatim>\<open>@\<close> is not empty, no
  white space and no second \<^verbatim>\<open>@\<close> anywhere, and the text after the \<^verbatim>\<open>@\<close> has a dot that
  is neither its first nor its last character.\<close>

definition email_char :: "char \<Rightarrow> bool" where
  "email_char c = (\<not> is_space c \<and> c \<noteq> CHR ''@'')"

definition matches_email :: "string \<Rightarrow> bool" where
  "matches_email s =
     (let local = takeWhile (\<lambda>c. c \<noteq> CHR ''@'') s;
          rest = dropWhile (\<lambda>c. c \<noteq> CHR ''@'') s
      in local \<noteq> [] \<and> list_all email_char local \<and> rest \<noteq> []
         \<and> list_all email_char (tl rest) \<and> CHR ''.'' \<in> set (butlast (tl (tl rest))))"

text \<open>
  \<^verbatim>\<open>validateUserData(userData, isUpdate = false)\<close> of \<^verbatim>\<open>lib/api.js\<close>. The record is an
  object; a property that is absent reads as undefined. \<^verbatim>\<open>.trim()\<close> exists on strings
  only: on any other truthy value the call is a TypeError, which ends the validation.
  Each check is
  \<^verbatim>\<open>
  if (!isUpdate || userData.name !== undefined) {
    if (!userData.name || userData.name.trim().length < 2) {
      errors.push("Name is required and must be at least 2 characters");
    }
  }
  \<close>
  with the email check testing a regular expression (on the value converted to a string)
  and the birthday check only \<^verbatim>\<open>!userData.birthday\<close>.
\<close>

definition checked :: "bool \<Rightarrow> jsval \<Rightarrow> bool" where
  "checked isUpdate v = (\<not> isUpdate \<or> v \<noteq> JUndefined)"

text \<open>\<^verbatim>\<open>!v || v.trim().length < n\<close>\<close>

fun too_short :: "jsval \<Rightarrow> nat \<Rightarrow> js_error + bool" where
  "too_short v n =
     (if \<not> truthy v then Inr True
      else (case v of
              JStr s \<Rightarrow> Inr (length (trim s) < n)
            | _ \<Rightarrow> Inl (TypeError ''trim is not a function'')))"

definition check_length ::
  "bool \<Rightarrow> jsval \<Rightarrow> nat \<Rightarrow> string \<Rightarrow> string list \<Rightarrow> js_error + string list" where
  "check_length isUpdate v n msg errs =
     (if checked isUpdate v then
        (case too_short v n of
           Inl e \<Rightarrow> Inl e
         | Inr bad \<Rightarrow> Inr (if bad then errs @ [msg] else errs))
      else Inr errs)"

definition check_email :: "bool \<Rightarrow> jsval \<Rightarrow> string list \<Rightarrow> string list" where
  "check_email isUpdate v errs =
     (if checked isUpdate v \<and> (\<not> truthy v \<or> \<not> matches_email (ToString v))
      then errs @ [''Valid email is required''] else errs)"

definition check_birthday :: "bool \<Rightarrow> jsval \<Rightarrow> string list \<Rightarrow> string list" where
  "check_birthday isUpdate v errs =
     (if checked isUpdate v \<and> \<not> truthy v then errs @ [''Birthday is required''] else errs)"

definition validateUserData :: "(string \<times> jsval) list \<Rightarrow> bool \<Rightarrow> js_error + string list" where
  "validateUserData userData isUpdate =
     (case check_length isUpdate (obj_get userData ''name'') 2
             ''Name is required and must be at least 2 characters'' [] of
        Inl e \<Rightarrow> Inl e
      | Inr errs1 \<Rightarrow>
     (case check_length isUpdate (obj_get userData ''aboutYou'') 10
             ''About You is required and must be at least 10 characters''
             (check_email isUpdate (obj_get userData ''email'') errs1) of
        Inl e \<Rightarrow> Inl e
      | Inr errs3 \<Rightarrow>
     (case check_length isUpdate (obj_get userData ''mobileNumber'') 10
             ''Mobile number is required''
             (check_birthday isUpdate (obj_get userData ''birthday'') errs3) of
        Inl e \<Rightarrow> Inl e
      | Inr errs5 \<Rightarrow>
          check_length isUpdate (obj_get userData ''country'') 2
             ''Country is required'' errs5)))"

text \<open>
  \<^verbatim>\<open>validateField(name, value)\<close> of the form. The form keeps a string in every field but
  the birthday, which is null or a Date object; a field is the case label of the switch
  with the value of that field. The clock of the host is a parameter: the current time
  value and the offset of local time from UTC (in milliseconds, at a given instant), which
  \<^verbatim>\<open>getFullYear\<close> uses. The two \<^verbatim>\<open>new Date()\<close> of one call read the same instant.
\<close>

record clock =
  now :: int
  tza :: "int \<Rightarrow> int"

datatype field =
    Name string
  | AboutYou string
  | Birthday "jsdate option"
  | MobileNumber string
  | Email string
  | Country string
  | Other string

definition getFullYear :: "clock \<Rightarrow> int \<Rightarrow> int" where
  "getFullYear ck t = fst (utc_date (t + tza ck t))"

fun validateField :: "clock \<Rightarrow> field \<Rightarrow> string" where
  "validateField ck (Name v) =
     (if v = [] \<or> length (trim v) < 2 then
        ''Name is required and must be at least 2 characters''
      else if length v > 50 then ''Name must be 50 characters or less''
      else if \<not> matches_letters v then ''Name should only contain letters and spaces''
      else [])"
| "validateField ck (AboutYou v) =
     (if v = [] \<or> length (trim v) < 10 then
        ''About You is required and must be at least 10 characters''
      else if length v > 250 then ''About You must be 250 characters or less''
      else [])"
| "validateField ck (Birthday v) =
     (case v of
        None \<Rightarrow> ''Birthday is required''
      | Some None \<Rightarrow> []
      | Some (Some t) \<Rightarrow>
          if t > now ck then ''Birthday cannot be in the future''
          else if getFullYear ck (now ck) - getFullYear ck t > 120 then ''Invalid age''
          else [])"
| "validateField ck (MobileNumber v) =
     (if v = [] \<or> length (trim v) < 10 then
        ''Mobile number is required and must be at least 10 characters''
      else if \<not> matches_phone v then ''Invalid mobile number format''
      else [])"
| "validateField ck (Email v) =
     (if v = [] \<or> trim v = [] then ''Email is required''
      else if \<not> matches_email v then ''Invalid email format''
      else [])"
| "validateField ck (Country v) =
     (if v = [] \<or> length (trim v) < 2 then
        ''Country is required and must be at least 2 characters''
      else if length v > 20 then ''Country must be 20 characters or less''
      else if \<not> matches_letters v then ''Country should only contain letters and spaces''
      else [])"
| "validateField ck (Other k) = []"



section \<open>Form controller\<close>

text \<open>
  The state of \<^verbatim>\<open>UserForm\<close>, one field per \<^verbatim>\<open>useState\<close>. The error and touched maps are
  objects: lists of properties in creation order, updated by
  \<^verbatim>\<open>{...prev, [key]: value}\<close> (\<open>AList.update\<close>: in place when the key exists, appended
  otherwise).
\<close>

record form_data =
  name :: string
  aboutYou :: string
  birthday :: "jsdate option"
  mobileNumber :: string
  email :: string
  country :: string

record form_state =
  formData :: form_data
  loading :: bool
  errors :: "(string \<times> string) list"
  success :: bool
  touched :: "(string \<times> bool) list"

text \<open>The properties of the component that the submission reads, and the host: the base
  address of the API, the network and the clock. A callback returns normally (\<open>None\<close>) or
  throws.\<close>

record props =
  user :: jsval
  mode :: string
  onSuccess :: "(jsval \<Rightarrow> js_error option) option"

record host =
  base_url :: string
  fetch :: network
  time :: clock

text \<open>What a submission does to the outside: calls of the API client, the requests these
  issue, the success callback, the scheduled redirect (path and delay in milliseconds).\<close>

datatype effect =
    Call_createUser jsval
  | Call_updateUser jsval jsval
  | Fetch request
  | Call_onSuccess jsval
  | Redirect string nat

text \<open>\<^verbatim>\<open>const isEditMode = mode === "edit" && user;\<close>\<close>

definition isEditMode :: "props \<Rightarrow> bool" where
  "isEditMode p = (mode p = ''edit'' \<and> truthy (user p))"

text \<open>
  \<^verbatim>\<open>
  const validateForm = () => {
    const newErrors = {};
    Object.keys(formData).forEach((key) => {
      const error = validateField(key, formData[key]);
      if (error) { newErrors[key] = error; }
    });
    return newErrors;
  };
  \<close>
  The keys of \<^verbatim>\<open>formData\<close> come in the order of its literal.
\<close>

definition form_fields :: "form_data \<Rightarrow> (string \<times> field) list" where
  "form_fields fd =
     [(''name'', Name (name fd)),
      (''aboutYou'', AboutYou (aboutYou fd)),
      (''birthday'', Birthday (birthday fd)),
      (''mobileNumber'', MobileNumber (mobileNumber fd)),
      (''email'', Email (email fd)),
      (''country'', Country (country fd))]"

definition validateForm :: "clock \<Rightarrow> form_data \<Rightarrow> (string \<times> string) list" where
  "validateForm ck fd =
     filter (\<lambda>ke. snd ke \<noteq> []) (map (\<lambda>kf. (fst kf, validateField ck (snd kf))) (form_fields fd))"

definition all_touched :: "(string \<times> bool) list" where
  "all_touched =
     [(''name'', True), (''aboutYou'', True), (''birthday'', True),
      (''mobileNumber'', True), (''email'', True), (''country'', True)]"

text \<open>\<^verbatim>\<open>String.prototype.includes\<close> (\<open>includes\<close> is a keyword of the prover)\<close>

fun includes_str :: "string \<Rightarrow> string \<Rightarrow> bool" where
  "includes_str [] sub = (sub = [])"
| "includes_str (c # cs) sub = (take (length sub) (c # cs) = sub \<or> includes_str cs sub)"

text \<open>\<^verbatim>\<open>const apiData = { ...formData, birthday: formatDateForAPI(formData.birthday) };\<close>\<close>

definition birthday_arg :: "jsdate option \<Rightarrow> jsarg" where
  "birthday_arg b = (case b of None \<Rightarrow> Val JNull | Some d \<Rightarrow> DateObj d)"

definition apiData :: "form_data \<Rightarrow> jsval \<Rightarrow> jsval" where
  "apiData fd b =
     JObj [(''name'', JStr (name fd)),
           (''aboutYou'', JStr (aboutYou fd)),
           (''birthday'', b),
           (''mobileNumber'', JStr (mobileNumber fd)),
           (''email'', JStr (email fd)),
           (''country'', JStr (country fd))]"

text \<open>
  The \<^verbatim>\<open>catch\<close> block of \<^verbatim>\<open>handleSubmit\<close>:
  \<^verbatim>\<open>
  if (error.message.includes("email already exists")) {
    setErrors((prev) => ({ ...prev, email: "A user with this email already exists" }));
  } else if (error.message.includes("mobile number")) {
    setErrors((prev) => ({ ...prev,
      mobileNumber: "A user with this mobile number already exists" }));
  } else {
    setErrors((prev) => ({ ...prev,
      general: error.message || `Failed to ${isEditMode ? "update" : "create"} user` }));
  }
  \<close>
\<close>

definition on_failure :: "props \<Rightarrow> js_error \<Rightarrow> form_state \<Rightarrow> form_state" where
  "on_failure p e st =
     (if includes_str (message e) ''email already exists'' then
        st\<lparr>errors := AList.update ''email'' ''A user with this email already exists'' (errors st)\<rparr>
      else if includes_str (message e) ''mobile number'' then
        st\<lparr>errors := AList.update ''mobileNumber''
                ''A user with this mobile number already exists'' (errors st)\<rparr>
      else
        st\<lparr>errors := AList.update ''general''
                (if message e \<noteq> [] then message e
                 else ''Failed to '' @ (if isEditMode p then ''update'' else ''create'') @ '' user'')
                (errors st)\<rparr>)"

text \<open>What follows the API call inside the \<^verbatim>\<open>try\<close> block: on a result,
  \<^verbatim>\<open>setSuccess(true)\<close>, then the callback if there is one, else the redirect after 1.5
  seconds. The first component is the error the block ends with, if any.\<close>

definition after_call ::
  "props \<Rightarrow> form_state \<Rightarrow> (js_error + jsval) \<times> request list \<Rightarrow> effect
     \<Rightarrow> js_error option \<times> form_state \<times> effect list" where
  "after_call p st res call =
     (case fst res of
        Inl e \<Rightarrow> (Some e, st, call # map Fetch (snd res))
      | Inr result \<Rightarrow>
          (case onSuccess p of
             Some cb \<Rightarrow>
               (cb result, st\<lparr>success := True\<rparr>,
                call # map Fetch (snd res) @ [Call_onSuccess result])
           | None \<Rightarrow>
               (None, st\<lparr>success := True\<rparr>,
                call # map Fetch (snd res) @ [Redirect ''/users'' 1500])))"

text \<open>The \<^verbatim>\<open>try\<close> block: the data for the API, then \<^verbatim>\<open>updateUser(user.id, apiData)\<close> in
  edit mode and \<^verbatim>\<open>createUser(apiData)\<close> otherwise.\<close>

definition try_submit ::
  "props \<Rightarrow> host \<Rightarrow> form_state \<Rightarrow> js_error option \<times> form_state \<times> effect list" where
  "try_submit p h st =
     (case formatDateForAPI (birthday_arg (birthday (formData st))) of
        Inl e \<Rightarrow> (Some e, st, [])
      | Inr b \<Rightarrow>
          if isEditMode p then
            (case get_prop (user p) ''id'' of
               Inl e \<Rightarrow> (Some e, st, [])
             | Inr uid \<Rightarrow>
                 after_call p st
                   (updateUser (base_url h) (fetch h) uid (apiData (formData st) b))
                   (Call_updateUser uid (apiData (formData st) b)))
          else
            after_call p st
              (createUser (base_url h) (fetch h) (apiData (formData st) b))
              (Call_createUser (apiData (formData st) b)))"

text \<open>
  \<^verbatim>\<open>
  const handleSubmit = async (e) => {
    e.preventDefault();
    const formErrors = validateForm();
    setErrors(formErrors);
    setTouched({ name: true, aboutYou: true, birthday: true,
                 mobileNumber: true, email: true, country: true });
    if (Object.keys(formErrors).length > 0) { return; }
    setLoading(true);
    try { ... } catch (error) { ... } finally { setLoading(false); }
  };
  \<close>
  The result is the state after the handler has run, with its effects in order.
\<close>

definition handleSubmit :: "props \<Rightarrow> host \<Rightarrow> form_state \<Rightarrow> form_state \<times> effect list" where
  "handleSubmit p h st =
     (let formErrors = validateForm (time h) (formData st);
          st1 = st\<lparr>errors := formErrors, touched := all_touched\<rparr>
      in if formErrors \<noteq> [] then (st1, [])
         else
           (case try_submit p h (st1\<lparr>loading := True\<rparr>) of
              (thrown, st2, effs) \<Rightarrow>
                ((case thrown of None \<Rightarrow> st2 | Some e \<Rightarrow> on_failure p e st2)
                   \<lparr>loading := False\<rparr>, effs)))"

text \<open>Names for what the submission does with the API: the identifier it passes in edit
  mode (\<^verbatim>\<open>user.id\<close>; in edit mode \<^verbatim>\<open>user\<close> is truthy, so the read cannot fail), the
  call it makes, the effect that records the call, and the entry that the \<^verbatim>\<open>catch\<close>
  block adds to the error map.\<close>

definition user_id :: "props \<Rightarrow> jsval" where
  "user_id p = (case get_prop (user p) ''id'' of Inl e \<Rightarrow> JUndefined | Inr v \<Rightarrow> v)"

definition submit_call :: "props \<Rightarrow> host \<Rightarrow> jsval \<Rightarrow> (js_error + jsval) \<times> request list" where
  "submit_call p h data =
     (if isEditMode p then updateUser (base_url h) (fetch h) (user_id p) data
      else createUser (base_url h) (fetch h) data)"

definition submit_effect :: "props \<Rightarrow> jsval \<Rightarrow> effect" where
  "submit_effect p data =
     (if isEditMode p then Call_updateUser (user_id p) data else Call_createUser data)"

definition failure_entry :: "props \<Rightarrow> js_error \<Rightarrow> string \<times> string" where
  "failure_entry p e =
     (if includes_str (message e) ''email already exists'' then
        (''email'', ''A user with this email already exists'')
      else if includes_str (message e) ''mobile number'' then
        (''mobileNumber'', ''A user with this mobile number already exists'')
      else
        (''general'',
         if message e \<noteq> [] then message e
         else ''Failed to '' @ (if isEditMode p then ''update'' else ''create'') @ '' user''))"

section \<open>The specification's wording, where it is compared with the code\<close>


text \<open>The query builder as the specification words it: the pairs that survive, in the
  insertion order of the mapping.\<close>

definition query_as_claimed :: "(string \<times> jsval) list \<Rightarrow> string" where
  "query_as_claimed params =
     (let kept = filter keep_param params
      in if kept = [] then [] else ''?'' @ join ''&'' (map encode_param kept))"

section \<open>Concrete scenarios\<close>

text \<open>A server that accepts every request and answers with the address it was asked for.\<close>

definition sample_net :: network where
  "sample_net req =
     Inr \<lparr>status = 200,
          body = Some (JObj [(''error'', JBool False), (''payload'', JStr (url req))])\<rparr>"

text \<open>A clock: 5 March 2024, 00:00 UTC, in a host whose local time is UTC.\<close>

definition sample_clock :: clock where
  "sample_clock = \<lparr>now = 1709596800000, tza = (\<lambda>t. 0)\<rparr>"



text \<open>The form filled with the sample user of \<^verbatim>\<open>app/test-api/page.js\<close> (born 15 June
  1995), in create mode with no callback; a server that reports a duplicate email, and
  one whose message holds both substrings that the form looks for.\<close>

definition sample_form :: form_data where
  "sample_form =
     \<lparr>name = ''Test User'',
      aboutYou = ''This is a test user created for API testing purposes.'',
      birthday = Some (Some 803174400000),
      mobileNumber = ''+1234567890'',
      email = ''testuser@example.com'',
      country = ''USA''\<rparr>"

definition sample_state :: form_state where
  "sample_state =
     \<lparr>formData = sample_form, loading = False, errors = [], success = False, touched = []\<rparr>"

definition sample_props :: props where
  "sample_props = \<lparr>user = JNull, mode = ''create'', onSuccess = None\<rparr>"

definition conflict_net :: network where
  "conflict_net req =
     Inr \<lparr>status = 409,
          body = Some (JObj [(''error'', JBool True),
            (''payload'', JStr ''email already exists, and so does the mobile number'')])\<rparr>"

definition duplicate_net :: network where
  "duplicate_net req =
     Inr \<lparr>status = 409,
          body = Some (JObj [(''error'', JBool True),
            (''payload'', JStr ''User with this email already exists'')])\<rparr>"

definition sample_host :: "network \<Rightarrow> host" where
  "sample_host net = \<lparr>base_url = ''http://h'', fetch = net, time = sample_clock\<rparr>"

section \<open>Properties\<close>

subsection \<open>Response unwrapper\<close>




subsection \<open>API client\<close>

lemma handleResponse_success:
  assumes "ok r" and "body r = Some (JObj ps)" and "\<not> truthy (obj_get ps ''error'')"
  shows "handleResponse r = Inr (obj_get ps ''payload'')"
  using assms by (simp add: handleResponse_def obj_get_def)

lemmas encode_defs = encode_param_def encodeURIComponent_def encode_unit_def uri_unreserved_def
  is_alpha_def is_digit_def pct_def hex_digit_def keep_param_def show_int_def show_nat.simps

text \<open>
  C7. \<^verbatim>\<open>getUserById(id)\<close> throws the error "User ID is required" without issuing any
  request whenever \<open>id\<close> is falsy, in particular for 0, the empty string, null and
  undefined. Otherwise it issues exactly one request, a GET to
  \<^verbatim>\<open>{base}/api/users/{id}\<close>, and its result is that of the response unwrapper on the
  response (or the error of the network): on a response with a status in 200..299 and a
  falsy \<open>error\<close>, the payload.
\<close>

theorem getUserById_guard:
  "(\<not> truthy uid \<longrightarrow> getUserById base net uid = (Inl (Error ''User ID is required''), []))
   \<and> getUserById base net (JNum 0) = (Inl (Error ''User ID is required''), [])
   \<and> getUserById base net (JStr []) = (Inl (Error ''User ID is required''), [])
   \<and> getUserById base net JNull = (Inl (Error ''User ID is required''), [])
   \<and> getUserById base net JUndefined = (Inl (Error ''User ID is required''), [])
   \<and> (truthy uid \<longrightarrow>
        (let req = \<lparr>url = base @ ''/api/users/'' @ ToString uid, http_method = ''GET'',
                     headers = json_headers, payload = None\<rparr>
         in snd (getUserById base net uid) = [req]
            \<and> fst (getUserById base net uid)
                = (case net req of Inl e \<Rightarrow> Inl e | Inr r \<Rightarrow> handleResponse r)
            \<and> (\<forall>r ps. net req = Inr r \<and> ok r \<and> body r = Some (JObj ps)
                    \<and> \<not> truthy (obj_get ps ''error'')
                  \<longrightarrow> fst (getUserById base net uid) = Inr (obj_get ps ''payload''))))"
  by (auto simp: getUserById_def send_def Let_def handleResponse_success split: sum.splits)

theorem getUserById_guard_witness:
  "\<not> truthy (JNum 0)
   \<and> getUserById ''http://h'' sample_net (JNum 0) = (Inl (Error ''User ID is required''), [])
   \<and> truthy (JNum 7)
   \<and> getUserById ''http://h'' sample_net (JNum 7)
       = (Inr (JStr ''http://h/api/users/7''),
          [\<lparr>url = ''http://h/api/users/7'', http_method = ''GET'',
            headers = json_headers, payload = None\<rparr>])"
proof -
  have falsy: "\<not> truthy (JNum 0)" and truthy: "truthy (JNum 7)"
    by simp_all
  have seven: "show_int 7 = ''7''"
    by (simp add: show_int_def show_nat.simps)
  from getUserById_guard [of "JNum 0" "''http://h''" sample_net] falsy
  have rejected: "getUserById ''http://h'' sample_net (JNum 0)
      = (Inl (Error ''User ID is required''), [])"
    by blast
  from getUserById_guard [of "JNum 7" "''http://h''" sample_net] truthy
  have "snd (getUserById ''http://h'' sample_net (JNum 7))
          = [\<lparr>url = ''http://h/api/users/7'', http_method = ''GET'',
               headers = json_headers, payload = None\<rparr>]"
    and "fst (getUserById ''http://h'' sample_net (JNum 7)) = Inr (JStr ''http://h/api/users/7'')"
    by (simp_all add: Let_def seven sample_net_def handleResponse_def ok_def)
  then have "getUserById ''http://h'' sample_net (JNum 7)
       = (Inr (JStr ''http://h/api/users/7''),
          [\<lparr>url = ''http://h/api/users/7'', http_method = ''GET'',
            headers = json_headers, payload = None\<rparr>])"
    by (simp add: prod_eq_iff)
  with falsy truthy rejected show ?thesis
    by blast
qed

text \<open>The parameters of the list operation: none of the ten keys is an array index, so the
  entries come in the order of the literal; the four pagination entries are truthy, hence
  always kept, and the query string is never empty.\<close>

lemma join_nonempty: "x \<in> set xs \<Longrightarrow> x \<noteq> [] \<Longrightarrow> join sep xs \<noteq> []"
  by (induction sep xs rule: join.induct) auto

lemma encode_param_nonempty: "encode_param p \<noteq> []"
  by (simp add: encode_param_def)

lemma truthy_keep_param: "truthy v \<Longrightarrow> keep_param (k, v)"
  by (cases v) (auto simp: keep_param_def)

lemma keep_param_js_or: "truthy d \<Longrightarrow> keep_param (k, js_or v d)"
  by (simp add: truthy_keep_param js_or_def)

lemma Object_entries_getUsers_params:
  "Object_entries (getUsers_params filters pagination) = getUsers_params filters pagination"
  by (simp add: Object_entries_def getUsers_params_def is_array_index_def is_digit_def)

lemma buildQueryString_getUsers_params:
  "buildQueryString (getUsers_params filters pagination)
     = ''?'' @ join ''&'' (map encode_param
         (filter keep_param
            [(''name'', obj_get filters ''name''), (''email'', obj_get filters ''email''),
             (''country'', obj_get filters ''country''),
             (''fromDate'', obj_get filters ''fromDate''),
             (''toDate'', obj_get filters ''toDate''),
             (''search'', obj_get filters ''search'')]
          @ [(''page'', js_or (obj_get pagination ''page'') (JNum 1)),
             (''limit'', js_or (obj_get pagination ''limit'') (JNum 10)),
             (''sortBy'', js_or (obj_get pagination ''sortBy'') (JStr ''createdAt'')),
             (''sortOrder'', js_or (obj_get pagination ''sortOrder'') (JStr ''DESC''))]))"
  (is "_ = ''?'' @ join ''&'' (map encode_param (?fs @ ?ps))")
proof -
  have kept: "filter keep_param (getUsers_params filters pagination) = ?fs @ ?ps"
    unfolding getUsers_params_def by (simp add: keep_param_js_or)
  have "encode_param (''page'', js_or (obj_get pagination ''page'') (JNum 1))
          \<in> set (map encode_param (?fs @ ?ps))"
    by simp
  then have "join ''&'' (map encode_param (?fs @ ?ps)) \<noteq> []"
    by (rule join_nonempty) (rule encode_param_nonempty)
  then show ?thesis
    by (simp add: buildQueryString_def Object_entries_getUsers_params kept Let_def)
qed

text \<open>
  C8. For all filters and pagination objects, the list operation issues exactly one
  request, a GET to \<^verbatim>\<open>{base}/api/users?{query}\<close>, where the query is built from the six
  filter keys \<open>name\<close>, \<open>email\<close>, \<open>country\<close>, \<open>fromDate\<close>, \<open>toDate\<close>, \<open>search\<close> (those
  whose value is not undefined, null or empty) followed by \<open>page\<close>, \<open>limit\<close>, \<open>sortBy\<close>
  and \<open>sortOrder\<close>, each the pagination field when that is truthy and otherwise the
  default 1, 10, "createdAt", "DESC" (\<open>js_or\<close> is \<^verbatim>\<open>||\<close>). The result is that of the
  response unwrapper: on a response with a status in 200..299 and a falsy \<open>error\<close>, the
  payload of the server, unchanged.
\<close>

theorem getUsers_query:
  "(let query = join ''&'' (map encode_param
                  (filter keep_param
                     [(''name'', obj_get filters ''name''), (''email'', obj_get filters ''email''),
                      (''country'', obj_get filters ''country''),
                      (''fromDate'', obj_get filters ''fromDate''),
                      (''toDate'', obj_get filters ''toDate''),
                      (''search'', obj_get filters ''search'')]
                   @ [(''page'', js_or (obj_get pagination ''page'') (JNum 1)),
                      (''limit'', js_or (obj_get pagination ''limit'') (JNum 10)),
                      (''sortBy'', js_or (obj_get pagination ''sortBy'') (JStr ''createdAt'')),
                      (''sortOrder'', js_or (obj_get pagination ''sortOrder'') (JStr ''DESC''))]));
        req = \<lparr>url = base @ ''/api/users?'' @ query, http_method = ''GET'',
                 headers = json_headers, payload = None\<rparr>
    in snd (getUsers base net filters pagination) = [req]
       \<and> fst (getUsers base net filters pagination)
           = (case net req of Inl e \<Rightarrow> Inl e | Inr r \<Rightarrow> handleResponse r)
       \<and> (\<forall>r ps. net req = Inr r \<and> ok r \<and> body r = Some (JObj ps)
               \<and> \<not> truthy (obj_get ps ''error'')
             \<longrightarrow> fst (getUsers base net filters pagination) = Inr (obj_get ps ''payload'')))"
proof -
  define req where "req = \<lparr>url = base @ ''/api/users''
        @ buildQueryString (getUsers_params filters pagination),
      http_method = ''GET'', headers = json_headers, payload = None\<rparr>"
  have run: "getUsers base net filters pagination = send net req"
    by (simp add: getUsers_def Let_def req_def)
  have "snd (send net req) = [req]"
    and "fst (send net req) = (case net req of Inl e \<Rightarrow> Inl e | Inr r \<Rightarrow> handleResponse r)"
    and "\<forall>r ps. net req = Inr r \<and> ok r \<and> body r = Some (JObj ps)
               \<and> \<not> truthy (obj_get ps ''error'')
             \<longrightarrow> fst (send net req) = Inr (obj_get ps ''payload'')"
    by (auto simp: send_def handleResponse_success split: sum.splits)
  then show ?thesis
    unfolding run Let_def req_def buildQueryString_getUsers_params
    by simp
qed

theorem getUsers_query_witness:
  "getUsers ''http://h'' sample_net [(''search'', JStr ''a b''), (''name'', JStr [])]
      [(''page'', JNum 0), (''limit'', JNum 5)]
    = (Inr (JStr ''http://h/api/users?search=a%20b&page=1&limit=5&sortBy=createdAt&sortOrder=DESC''),
       [\<lparr>url = ''http://h/api/users?search=a%20b&page=1&limit=5&sortBy=createdAt&sortOrder=DESC'',
         http_method = ''GET'', headers = json_headers, payload = None\<rparr>])"
proof -
  from getUsers_query [where base = "''http://h''" and net = sample_net
      and filters = "[(''search'', JStr ''a b''), (''name'', JStr [])]"
      and pagination = "[(''page'', JNum 0), (''limit'', JNum 5)]"]
  have "snd (getUsers ''http://h'' sample_net [(''search'', JStr ''a b''), (''name'', JStr [])]
      [(''page'', JNum 0), (''limit'', JNum 5)])
    = [\<lparr>url = ''http://h/api/users?search=a%20b&page=1&limit=5&sortBy=createdAt&sortOrder=DESC'',
         http_method = ''GET'', headers = json_headers, payload = None\<rparr>]"
   and "fst (getUsers ''http://h'' sample_net [(''search'', JStr ''a b''), (''name'', JStr [])]
      [(''page'', JNum 0), (''limit'', JNum 5)])
    = Inr (JStr ''http://h/api/users?search=a%20b&page=1&limit=5&sortBy=createdAt&sortOrder=DESC'')"
    by (simp_all add: Let_def obj_get_def js_or_def encode_defs sample_net_def
          handleResponse_def ok_def)
  then show ?thesis
    by (simp add: prod_eq_iff)
qed

subsection \<open>Query builder\<close>

text \<open>Splitting undoes joining when no piece holds the separator, and the encoder only
  emits unreserved characters, the percent sign and hexadecimal digits: neither
  \<^verbatim>\<open>&\<close> nor \<^verbatim>\<open>=\<close>.\<close>

lemma split_on_no_sep: "c \<notin> set x \<Longrightarrow> split_on c x = [x]"
  by (induction x) auto

lemma split_on_append: "c \<notin> set x \<Longrightarrow> split_on c (x @ c # rest) = x # split_on c rest"
  by (induction x) auto

lemma split_on_join:
  "xs \<noteq> [] \<Longrightarrow> \<forall>x \<in> set xs. c \<notin> set x \<Longrightarrow> split_on c (join [c] xs) = xs"
  by (induction "[c]" xs rule: join.induct) (auto simp: split_on_no_sep split_on_append)

lemma hex_digit_in: "d < 16 \<Longrightarrow> hex_digit d \<in> set ''0123456789ABCDEF''"
  unfolding hex_digit_def by (rule nth_mem) simp

lemma pct_chars: "b < 256 \<Longrightarrow> set (pct b) \<subseteq> set ''%0123456789ABCDEF''"
  using hex_digit_in [of "b div 16"] hex_digit_in [of "b mod 16"]
  by (auto simp: pct_def)

lemma of_char_lt: "(of_char c :: nat) < 256"
  by simp

lemma encode_unit_chars:
  "x \<in> set (encode_unit c) \<Longrightarrow> uri_unreserved x \<or> x \<in> set ''%0123456789ABCDEF''"
proof (cases "uri_unreserved c")
  case True
  assume "x \<in> set (encode_unit c)"
  with True show ?thesis by (simp add: encode_unit_def)
next
  case False
  assume x: "x \<in> set (encode_unit c)"
  have n: "(of_char c :: nat) < 256" by (rule of_char_lt)
  then have "192 + (of_char c :: nat) div 64 < 256" and "128 + (of_char c :: nat) mod 64 < 256"
    by arith+
  with n have "set (encode_unit c) \<subseteq> set ''%0123456789ABCDEF''"
    using pct_chars [of "of_char c"] pct_chars [of "192 + of_char c div 64"]
      pct_chars [of "128 + of_char c mod 64"] False
    by (auto simp: encode_unit_def Let_def)
  with x show ?thesis by blast
qed

lemma encodeURIComponent_chars:
  "x \<in> set (encodeURIComponent s) \<Longrightarrow> uri_unreserved x \<or> x \<in> set ''%0123456789ABCDEF''"
  by (auto simp: encodeURIComponent_def dest: encode_unit_chars)

lemma amp_not_encoded: "CHR ''&'' \<notin> set (encodeURIComponent s)"
  using encodeURIComponent_chars [of "CHR ''&''" s]
  by (auto simp: uri_unreserved_def is_alpha_def is_digit_def)

lemma eq_not_encoded: "CHR ''='' \<notin> set (encodeURIComponent s)"
  using encodeURIComponent_chars [of "CHR ''=''" s]
  by (auto simp: uri_unreserved_def is_alpha_def is_digit_def)

lemma amp_not_in_param: "CHR ''&'' \<notin> set (encode_param p)"
  by (simp add: encode_param_def amp_not_encoded)

lemma set_Object_entries: "set (Object_entries ps) = set ps"
  by (auto simp: Object_entries_def)

lemma Object_entries_no_index:
  "list_all (\<lambda>p. \<not> is_array_index (fst p)) ps \<Longrightarrow> Object_entries ps = ps"
  by (induction ps) (auto simp: Object_entries_def list_all_iff)


lemma join_encode_param_nonempty: "ps \<noteq> [] \<Longrightarrow> join sep (map encode_param ps) \<noteq> []"
  using join_nonempty [of "encode_param (hd ps)" "map encode_param ps" sep]
  by (cases ps) (simp_all add: encode_param_nonempty)

lemma buildQueryString_kept:
  "buildQueryString params =
     (if filter keep_param (Object_entries params) = [] then []
      else ''?'' @ join ''&'' (map encode_param (filter keep_param (Object_entries params))))"
  by (simp add: buildQueryString_def Let_def join_encode_param_nonempty)

text \<open>
  C2 (as amended). For every flat parameter mapping, the pairs of the query string are
  exactly the entries whose value is not undefined, null or the empty string, each
  percent-encoded as \<^verbatim>\<open>key=value\<close> and joined with \<^verbatim>\<open>&\<close>, so that splitting the
  output at \<^verbatim>\<open>&\<close> gives back one segment per surviving entry; the result is prefixed
  with \<^verbatim>\<open>?\<close> when at least one pair survives and is empty otherwise. The pairs come in
  the order of \<^verbatim>\<open>Object.entries\<close>: keys that are array indices first, in ascending
  numeric order, then the other keys in insertion order. When no key is an array index
  this is the insertion order of the mapping, as the specification has it.
\<close>

theorem buildQueryString_entries:
  "(let kept = filter keep_param (Object_entries params)
    in buildQueryString params
         = (if kept = [] then [] else ''?'' @ join ''&'' (map encode_param kept))
       \<and> set kept = {p \<in> set params. snd p \<noteq> JUndefined \<and> snd p \<noteq> JNull \<and> snd p \<noteq> JStr []}
       \<and> (kept \<noteq> [] \<longrightarrow>
            split_on CHR ''&'' (tl (buildQueryString params)) = map encode_param kept))
   \<and> (list_all (\<lambda>p. \<not> is_array_index (fst p)) params \<longrightarrow>
        Object_entries params = params \<and> buildQueryString params = query_as_claimed params)
   \<and> (let indexed = filter (\<lambda>p. is_array_index (fst p)) (Object_entries params)
       in Object_entries params = indexed @ filter (\<lambda>p. \<not> is_array_index (fst p)) params
          \<and> sorted (map (\<lambda>p. nat_of_digits (fst p)) indexed)
          \<and> set indexed = {p \<in> set params. is_array_index (fst p)})"
proof -
  let ?kept = "filter keep_param (Object_entries params)"
  let ?indexed = "filter (\<lambda>p. is_array_index (fst p)) (Object_entries params)"
  have indexed: "?indexed
      = sort_key (\<lambda>p. nat_of_digits (fst p)) (filter (\<lambda>p. is_array_index (fst p)) params)"
    by (simp add: Object_entries_def filter_sort)
  have order: "Object_entries params = ?indexed @ filter (\<lambda>p. \<not> is_array_index (fst p)) params
      \<and> sorted (map (\<lambda>p. nat_of_digits (fst p)) ?indexed)
      \<and> set ?indexed = {p \<in> set params. is_array_index (fst p)}"
    unfolding indexed by (auto simp: Object_entries_def)
  have shape: "buildQueryString params
      = (if ?kept = [] then [] else ''?'' @ join ''&'' (map encode_param ?kept))"
    by (rule buildQueryString_kept)
  have members: "set ?kept
      = {p \<in> set params. snd p \<noteq> JUndefined \<and> snd p \<noteq> JNull \<and> snd p \<noteq> JStr []}"
    by (auto simp: set_Object_entries keep_param_def)
  have segments: "split_on CHR ''&'' (tl (buildQueryString params)) = map encode_param ?kept"
    if "?kept \<noteq> []"
  proof -
    from that have "tl (buildQueryString params) = join ''&'' (map encode_param ?kept)"
      by (simp add: shape)
    moreover from that have "map encode_param ?kept \<noteq> []"
      by simp
    moreover have "\<forall>x \<in> set (map encode_param ?kept). CHR ''&'' \<notin> set x"
      by (auto simp: amp_not_in_param)
    ultimately show ?thesis
      by (simp add: split_on_join)
  qed
  have plain: "Object_entries params = params \<and> buildQueryString params = query_as_claimed params"
    if "list_all (\<lambda>p. \<not> is_array_index (fst p)) params"
    using Object_entries_no_index [OF that]
    by (simp add: buildQueryString_kept query_as_claimed_def Let_def)
  from shape members segments plain order show ?thesis
    unfolding Let_def by blast
qed

theorem buildQueryString_entries_witness:
  "list_all (\<lambda>p. \<not> is_array_index (fst p))
      [(''q'', JStr ''a&b''), (''n'', JNull), (''e'', JStr []), (''u'', JUndefined), (''page'', JNum 2)]
   \<and> filter keep_param (Object_entries
        [(''q'', JStr ''a&b''), (''n'', JNull), (''e'', JStr []), (''u'', JUndefined), (''page'', JNum 2)])
        \<noteq> []
   \<and> buildQueryString
        [(''q'', JStr ''a&b''), (''n'', JNull), (''e'', JStr []), (''u'', JUndefined), (''page'', JNum 2)]
      = ''?q=a%26b&page=2''
   \<and> split_on CHR ''&'' ''q=a%26b&page=2'' = [''q=a%26b'', ''page=2'']
   \<and> Object_entries [(''b'', JStr ''x''), (''10'', JStr ''y''), (''9'', JStr ''z'')]
       = [(''9'', JStr ''z''), (''10'', JStr ''y''), (''b'', JStr ''x'')]
   \<and> buildQueryString [(''b'', JStr ''x''), (''10'', JStr ''y''), (''9'', JStr ''z'')]
       = ''?9=z&10=y&b=x''"
proof -
  let ?ps = "[(''q'', JStr ''a&b''), (''n'', JNull), (''e'', JStr []), (''u'', JUndefined),
              (''page'', JNum 2)]"
  let ?qs = "[(''b'', JStr ''x''), (''10'', JStr ''y''), (''9'', JStr ''z'')]"
  have plain: "list_all (\<lambda>p. \<not> is_array_index (fst p)) ?ps"
    by (simp add: is_array_index_def is_digit_def)
  have kept: "filter keep_param ?ps = [(''q'', JStr ''a&b''), (''page'', JNum 2)]"
    by (simp add: keep_param_def)
  have enc: "map encode_param [(''q'', JStr ''a&b''), (''page'', JNum 2)] = [''q=a%26b'', ''page=2'']"
    by (simp add: encode_defs)
  note entries = buildQueryString_entries [of ?ps, unfolded Let_def]
  from entries [THEN conjunct2, THEN conjunct1] plain
  have same: "Object_entries ?ps = ?ps"
    by blast
  have nonempty: "filter keep_param (Object_entries ?ps) \<noteq> []"
    unfolding same kept by simp
  from entries [THEN conjunct1, THEN conjunct1] nonempty
  have q: "buildQueryString ?ps = ''?q=a%26b&page=2''"
    unfolding same kept enc by simp
  from entries [THEN conjunct1, THEN conjunct2, THEN conjunct2] nonempty
  have "split_on CHR ''&'' (tl (buildQueryString ?ps)) = [''q=a%26b'', ''page=2'']"
    unfolding same kept enc by simp
  then have segments: "split_on CHR ''&'' ''q=a%26b&page=2'' = [''q=a%26b'', ''page=2'']"
    by (simp add: q)
  note indexed = buildQueryString_entries [of ?qs, unfolded Let_def]
  have first: "filter (\<lambda>p. is_array_index (fst p)) (Object_entries ?qs)
      = [(''9'', JStr ''z''), (''10'', JStr ''y'')]"
    and rest: "filter (\<lambda>p. \<not> is_array_index (fst p)) ?qs = [(''b'', JStr ''x'')]"
    by (simp_all add: Object_entries_def is_array_index_def is_digit_def nat_of_digits_def)
  from indexed [THEN conjunct2, THEN conjunct2, THEN conjunct1]
  have sorted: "Object_entries ?qs = [(''9'', JStr ''z''), (''10'', JStr ''y''), (''b'', JStr ''x'')]"
    unfolding first rest by simp
  have all_kept: "filter keep_param [(''9'', JStr ''z''), (''10'', JStr ''y''), (''b'', JStr ''x'')]
      = [(''9'', JStr ''z''), (''10'', JStr ''y''), (''b'', JStr ''x'')]"
    by (simp add: keep_param_def)
  have enc': "map encode_param [(''9'', JStr ''z''), (''10'', JStr ''y''), (''b'', JStr ''x'')]
      = [''9=z'', ''10=y'', ''b=x'']"
    by (simp add: encode_defs)
  from indexed [THEN conjunct1, THEN conjunct1]
  have q': "buildQueryString ?qs = ''?9=z&10=y&b=x''"
    unfolding sorted all_kept enc' by simp
  from plain nonempty q segments sorted q' show ?thesis
    by blast
qed

text \<open>The claim as worded fails on a mapping with an integer-like key: the key \<open>1\<close>,
  inserted last, comes first.\<close>

theorem buildQueryString_order_counterexample:
  "buildQueryString [(''b'', JStr ''x''), (''1'', JStr ''y'')] = ''?1=y&b=x''
   \<and> query_as_claimed [(''b'', JStr ''x''), (''1'', JStr ''y'')] = ''?b=x&1=y''"
  by (simp add: buildQueryString_def query_as_claimed_def Object_entries_def is_array_index_def
        nat_of_digits_def encode_defs)

subsection \<open>Date formatter\<close>

text \<open>The calendar conversion at known dates, among them a leap day, a day before the
  epoch and the first day of the year 10000.\<close>

lemma civil_from_days_samples:
  "civil_from_days 0 = (1970, 1, 1)"
  "civil_from_days (- 1) = (1969, 12, 31)"
  "civil_from_days 11016 = (2000, 2, 29)"
  "civil_from_days 19787 = (2024, 3, 5)"
  "civil_from_days (- 25567) = (1900, 1, 1)"
  "civil_from_days 2932897 = (10000, 1, 1)"
  by code_simp+

lemma mod_ten_cases:
  "(k::int) mod 10 = 0 \<or> k mod 10 = 1 \<or> k mod 10 = 2 \<or> k mod 10 = 3 \<or> k mod 10 = 4
   \<or> k mod 10 = 5 \<or> k mod 10 = 6 \<or> k mod 10 = 7 \<or> k mod 10 = 8 \<or> k mod 10 = 9"
  by presburger

lemma digit_char_is_digit: "is_digit (digit_char k)"
  using mod_ten_cases [of k] unfolding digit_char_def
  by (elim disjE) (simp_all add: is_digit_def)

lemma digit_char_neq [simp]:
  "digit_char k \<noteq> CHR ''T''" "digit_char k \<noteq> CHR ''-''" "digit_char k \<noteq> CHR ''+''"
  "CHR ''T'' \<noteq> digit_char k"
proof -
  have "\<not> is_digit CHR ''T''" "\<not> is_digit CHR ''-''" "\<not> is_digit CHR ''+''"
    by (simp_all add: is_digit_def)
  with digit_char_is_digit [of k]
  show "digit_char k \<noteq> CHR ''T''" "digit_char k \<noteq> CHR ''-''" "digit_char k \<noteq> CHR ''+''"
    "CHR ''T'' \<noteq> digit_char k"
    by auto
qed

lemma matches_ymd_examples:
  "matches_ymd ''2024-03-05''" "\<not> matches_ymd ''2024-3-05''" "\<not> matches_ymd ''2024-03-05 ''"
  "\<not> matches_ymd ''+010000-01-01''" "\<not> matches_ymd []" "\<not> matches_ymd ''2024/03/05''"
  by (simp_all add: matches_ymd_def is_digit_def)

lemma iso_date_matches:
  "matches_ymd (iso_date (y, m, d)) \<longleftrightarrow> 0 \<le> y \<and> y \<le> 9999"
  by (auto simp: matches_ymd_def iso_date_def iso_year_def six_digits_def four_digits_def
        two_digits_def digit_char_is_digit)

lemma no_T_in_iso_date: "CHR ''T'' \<notin> set (iso_date ymd)"
  by (cases ymd)
     (auto simp: iso_date_def iso_year_def six_digits_def four_digits_def two_digits_def)

lemma formatDateForAPI_valid_date:
  "formatDateForAPI (DateObj (Some t)) = Inr (JStr (iso_date (utc_date t)))"
proof -
  have "takeWhile (\<lambda>c. c \<noteq> CHR ''T'') (iso_date (utc_date t) @ CHR ''T'' # rest)
          = iso_date (utc_date t)" for rest
  proof -
    have "x \<noteq> CHR ''T''" if "x \<in> set (iso_date (utc_date t))" for x
      using that no_T_in_iso_date [of "utc_date t"] by auto
    then show ?thesis
      by (simp add: takeWhile_append2)
  qed
  then show ?thesis
    by (simp add: formatDateForAPI.simps toISOString_def)
qed


lemma matches_ymd_Nil [simp]: "\<not> matches_ymd []"
  by (simp add: matches_ymd_def)

lemma formatDateForAPI_Val_cases:
  "formatDateForAPI (Val v) =
     (case v of JStr s \<Rightarrow> if matches_ymd s then Inr (JStr s) else Inr JNull | _ \<Rightarrow> Inr JNull)"
  by (cases v) (auto simp: formatDateForAPI.simps matches_ymd_def)

text \<open>
  C9 (as amended). \<^verbatim>\<open>formatDateForAPI\<close> returns null for an absent (more generally, a
  falsy) input; returns any string matching \<^verbatim>\<open>^\d{4}-\d{2}-\d{2}$\<close> unchanged; returns
  null for every other input that is not a Date object, without raising an error; and
  returns, for a Date object with a valid time value, the date part of its ISO string,
  which is its UTC calendar date: formatted \<^verbatim>\<open>YYYY-MM-DD\<close> when the UTC year lies in
  0..9999, and with a sign and a six-digit year (so not in that format) when it does not.
  Nothing is stated for a Date object with an invalid time value.
\<close>

theorem formatDateForAPI_cases:
  "(\<not> truthy v \<longrightarrow> formatDateForAPI (Val v) = Inr JNull)
   \<and> (matches_ymd s \<longrightarrow> formatDateForAPI (Val (JStr s)) = Inr (JStr s))
   \<and> ((\<forall>s. v = JStr s \<longrightarrow> \<not> matches_ymd s) \<longrightarrow> formatDateForAPI (Val v) = Inr JNull)
   \<and> formatDateForAPI (DateObj (Some t)) = Inr (JStr (iso_date (utc_date t)))
   \<and> (0 \<le> fst (utc_date t) \<and> fst (utc_date t) \<le> 9999 \<longrightarrow>
        iso_date (utc_date t)
          = (case utc_date t of
               (y, m, d) \<Rightarrow> four_digits y @ ''-'' @ two_digits m @ ''-'' @ two_digits d)
        \<and> matches_ymd (iso_date (utc_date t)))
   \<and> (fst (utc_date t) < 0 \<or> 9999 < fst (utc_date t) \<longrightarrow>
        iso_date (utc_date t)
          = (case utc_date t of
               (y, m, d) \<Rightarrow> (if y < 0 then CHR ''-'' # six_digits (- y) else CHR ''+'' # six_digits y)
                             @ ''-'' @ two_digits m @ ''-'' @ two_digits d)
        \<and> \<not> matches_ymd (iso_date (utc_date t)))"
proof -
  obtain y m d where ymd: "utc_date t = (y, m, d)"
    by (cases "utc_date t")
  have falsy: "\<not> truthy v \<longrightarrow> formatDateForAPI (Val v) = Inr JNull"
    by (simp add: formatDateForAPI.simps)
  have fixed: "matches_ymd s \<longrightarrow> formatDateForAPI (Val (JStr s)) = Inr (JStr s)"
    by (simp add: formatDateForAPI_Val_cases)
  have other: "(\<forall>s. v = JStr s \<longrightarrow> \<not> matches_ymd s) \<longrightarrow> formatDateForAPI (Val v) = Inr JNull"
    by (cases v) (simp_all add: formatDateForAPI_Val_cases)
  have inside: "0 \<le> y \<and> y \<le> 9999 \<longrightarrow>
      iso_date (y, m, d) = four_digits y @ ''-'' @ two_digits m @ ''-'' @ two_digits d
      \<and> matches_ymd (iso_date (y, m, d))"
    by (simp add: iso_date_matches) (simp add: iso_date_def iso_year_def)
  have outside: "y < 0 \<or> 9999 < y \<longrightarrow>
      iso_date (y, m, d)
        = (if y < 0 then CHR ''-'' # six_digits (- y) else CHR ''+'' # six_digits y)
          @ ''-'' @ two_digits m @ ''-'' @ two_digits d
      \<and> \<not> matches_ymd (iso_date (y, m, d))"
    by (simp add: iso_date_matches) (auto simp: iso_date_def iso_year_def)
  from falsy fixed other inside outside formatDateForAPI_valid_date [of t] show ?thesis
    unfolding ymd by (simp only: fst_conv prod.case)
qed

theorem formatDateForAPI_cases_witness:
  "\<not> truthy (JStr [])
   \<and> formatDateForAPI (Val (JStr [])) = Inr JNull
   \<and> matches_ymd ''2024-03-05''
   \<and> formatDateForAPI (Val (JStr ''2024-03-05'')) = Inr (JStr ''2024-03-05'')
   \<and> 0 \<le> fst (utc_date 1709596800000) \<and> fst (utc_date 1709596800000) \<le> 9999
   \<and> formatDateForAPI (DateObj (Some 1709596800000)) = Inr (JStr ''2024-03-05'')
   \<and> 9999 < fst (utc_date 253402300800000)
   \<and> formatDateForAPI (DateObj (Some 253402300800000)) = Inr (JStr ''+010000-01-01'')"
proof -
  have march: "utc_date 1709596800000 = (2024, 3, 5)"
    and far: "utc_date 253402300800000 = (10000, 1, 1)"
    by code_simp+
  have rendered: "iso_date (2024, 3, 5) = ''2024-03-05''"
    and far_rendered: "iso_date (10000, 1, 1) = ''+010000-01-01''"
    by code_simp+
  have pattern: "matches_ymd ''2024-03-05''"
    by (simp add: matches_ymd_def is_digit_def)
  have falsy: "\<not> truthy (JStr [])"
    by simp
  note here = formatDateForAPI_cases [of "JStr []" "''2024-03-05''" 1709596800000]
  note there = formatDateForAPI_cases [of "JStr []" "''2024-03-05''" 253402300800000]
  from here [THEN conjunct1] falsy
  have empty: "formatDateForAPI (Val (JStr [])) = Inr JNull"
    by blast
  from here [THEN conjunct2, THEN conjunct1] pattern
  have kept: "formatDateForAPI (Val (JStr ''2024-03-05'')) = Inr (JStr ''2024-03-05'')"
    by blast
  from here [THEN conjunct2, THEN conjunct2, THEN conjunct2, THEN conjunct1]
  have date: "formatDateForAPI (DateObj (Some 1709596800000)) = Inr (JStr ''2024-03-05'')"
    unfolding march rendered .
  from there [THEN conjunct2, THEN conjunct2, THEN conjunct2, THEN conjunct1]
  have far_date: "formatDateForAPI (DateObj (Some 253402300800000)) = Inr (JStr ''+010000-01-01'')"
    unfolding far far_rendered .
  from falsy empty pattern kept date far_date show ?thesis
    by (simp add: march far)
qed

text \<open>The claim as worded fails on Date objects: an invalid Date makes the formatter
  raise a RangeError, and the first instant of the year 10000, a time value that a Date
  object can hold, is not rendered as \<^verbatim>\<open>YYYY-MM-DD\<close>.\<close>

theorem formatDateForAPI_date_counterexample:
  "formatDateForAPI (DateObj None) = Inl (RangeError ''Invalid time value'')
   \<and> in_time_range 253402300800000
   \<and> formatDateForAPI (DateObj (Some 253402300800000)) = Inr (JStr ''+010000-01-01'')
   \<and> \<not> matches_ymd ''+010000-01-01''"
  by code_simp

text \<open>
  C10 (as amended). \<^verbatim>\<open>formatDateForAPI\<close> is idempotent on every input that is not a
  Date object, where its output is null or a string matching \<^verbatim>\<open>^\d{4}-\d{2}-\d{2}$\<close>,
  and on every valid Date object whose UTC year lies in 0..9999, where its output matches
  that pattern; both kinds of output are fixed points. On a valid Date object whose UTC
  year lies outside 0..9999 it is not: the first application gives a string, the second
  null.
\<close>

theorem formatDateForAPI_idempotent_on:
  "formatDateForAPI_twice (Val v) = formatDateForAPI (Val v)
   \<and> (formatDateForAPI (Val v) = Inr JNull
       \<or> (\<exists>s. formatDateForAPI (Val v) = Inr (JStr s) \<and> matches_ymd s))
   \<and> (0 \<le> fst (utc_date t) \<and> fst (utc_date t) \<le> 9999 \<longrightarrow>
        formatDateForAPI_twice (DateObj (Some t)) = formatDateForAPI (DateObj (Some t))
        \<and> (\<exists>s. formatDateForAPI (DateObj (Some t)) = Inr (JStr s) \<and> matches_ymd s))
   \<and> (fst (utc_date t) < 0 \<or> 9999 < fst (utc_date t) \<longrightarrow>
        formatDateForAPI_twice (DateObj (Some t)) = Inr JNull
        \<and> formatDateForAPI (DateObj (Some t)) \<noteq> Inr JNull)"
proof -
  obtain y m d where ymd: "utc_date t = (y, m, d)"
    by (cases "utc_date t")
  have plain: "formatDateForAPI_twice (Val v) = formatDateForAPI (Val v)"
    by (cases v) (simp_all add: formatDateForAPI_twice_def formatDateForAPI_Val_cases)
  have shape: "formatDateForAPI (Val v) = Inr JNull
       \<or> (\<exists>s. formatDateForAPI (Val v) = Inr (JStr s) \<and> matches_ymd s)"
    by (cases v) (simp_all add: formatDateForAPI_Val_cases)
  have twice: "formatDateForAPI_twice (DateObj (Some t))
      = (if matches_ymd (iso_date (y, m, d)) then Inr (JStr (iso_date (y, m, d))) else Inr JNull)"
    unfolding formatDateForAPI_twice_def formatDateForAPI_valid_date ymd
    by (simp add: formatDateForAPI_Val_cases)
  have once: "formatDateForAPI (DateObj (Some t)) = Inr (JStr (iso_date (y, m, d)))"
    by (simp add: formatDateForAPI_valid_date ymd)
  from plain shape show ?thesis
    unfolding twice once ymd by (simp add: iso_date_matches)
qed

theorem formatDateForAPI_idempotent_on_witness:
  "0 \<le> fst (utc_date 1709596800000) \<and> fst (utc_date 1709596800000) \<le> 9999
   \<and> formatDateForAPI (DateObj (Some 1709596800000)) = Inr (JStr ''2024-03-05'')
   \<and> formatDateForAPI_twice (DateObj (Some 1709596800000)) = Inr (JStr ''2024-03-05'')
   \<and> formatDateForAPI_twice (Val (JStr ''2024-03-05'')) = Inr (JStr ''2024-03-05'')
   \<and> 9999 < fst (utc_date 253402300800000)
   \<and> formatDateForAPI_twice (DateObj (Some 253402300800000)) = Inr JNull"
proof -
  have march: "utc_date 1709596800000 = (2024, 3, 5)"
    and far: "utc_date 253402300800000 = (10000, 1, 1)"
    by code_simp+
  have once: "formatDateForAPI (DateObj (Some 1709596800000)) = Inr (JStr ''2024-03-05'')"
    and again: "formatDateForAPI (Val (JStr ''2024-03-05'')) = Inr (JStr ''2024-03-05'')"
    by code_simp+
  note here = formatDateForAPI_idempotent_on [of "JStr ''2024-03-05''" 1709596800000]
  note there = formatDateForAPI_idempotent_on [of "JStr ''2024-03-05''" 253402300800000]
  from here have "formatDateForAPI_twice (DateObj (Some 1709596800000)) = Inr (JStr ''2024-03-05'')"
    unfolding march once by simp
  moreover from here have "formatDateForAPI_twice (Val (JStr ''2024-03-05'')) = Inr (JStr ''2024-03-05'')"
    unfolding again by simp
  moreover from there have "formatDateForAPI_twice (DateObj (Some 253402300800000)) = Inr JNull"
    unfolding far by simp
  ultimately show ?thesis
    by (simp add: march far once)
qed

text \<open>The claim as worded fails on the first instant of the year 10000, a time value
  that a Date object can hold.\<close>

theorem formatDateForAPI_twice_counterexample:
  "in_time_range 253402300800000
   \<and> formatDateForAPI (DateObj (Some 253402300800000)) = Inr (JStr ''+010000-01-01'')
   \<and> formatDateForAPI_twice (DateObj (Some 253402300800000)) = Inr JNull"
  by code_simp

subsection \<open>Validators\<close>









text \<open>The executable matcher for the email pattern accepts exactly the strings of the
  form \<open>a@b.c\<close> with \<open>a\<close>, \<open>b\<close>, \<open>c\<close> non-empty and free of white space and
  \<^verbatim>\<open>@\<close>, which is what the regular expression denotes.\<close>

lemma matches_email_iff:
  "matches_email s \<longleftrightarrow>
     (\<exists>a b c. s = a @ ''@'' @ b @ ''.'' @ c \<and> a \<noteq> [] \<and> b \<noteq> [] \<and> c \<noteq> []
        \<and> list_all email_char a \<and> list_all email_char b \<and> list_all email_char c)"
proof
  assume m: "matches_email s"
  let ?a = "takeWhile (\<lambda>c. c \<noteq> CHR ''@'') s"
  let ?rest = "dropWhile (\<lambda>c. c \<noteq> CHR ''@'') s"
  from m have a: "?a \<noteq> []" "list_all email_char ?a" and rest: "?rest \<noteq> []"
    and dom: "list_all email_char (tl ?rest)" and dot: "CHR ''.'' \<in> set (butlast (tl (tl ?rest)))"
    by (simp_all add: matches_email_def Let_def)
  from rest have at: "hd ?rest = CHR ''@''"
    using hd_dropWhile [of "\<lambda>c. c \<noteq> CHR ''@''" s] by simp
  from dot obtain xs ys where mid: "butlast (tl (tl ?rest)) = xs @ CHR ''.'' # ys"
    by (auto simp: in_set_conv_decomp)
  then have ne2: "tl (tl ?rest) \<noteq> []"
    by auto
  then have ne1: "tl ?rest \<noteq> []"
    by auto
  define b where "b = hd (tl ?rest) # xs"
  define c where "c = ys @ [last (tl (tl ?rest))]"
  from ne2 mid have "tl (tl ?rest) = xs @ CHR ''.'' # ys @ [last (tl (tl ?rest))]"
    by (metis append.assoc append_Cons append_butlast_last_id)
  with ne1 have "tl ?rest = b @ ''.'' @ c"
    unfolding b_def c_def by (cases "tl ?rest") auto
  with rest at have "?rest = ''@'' @ b @ ''.'' @ c"
    by (cases ?rest) auto
  then have "s = ?a @ ''@'' @ b @ ''.'' @ c"
    by (metis takeWhile_dropWhile_id)
  moreover from dom \<open>tl ?rest = b @ ''.'' @ c\<close>
  have "list_all email_char b" "list_all email_char c"
    by simp_all
  moreover have "b \<noteq> []" "c \<noteq> []"
    by (simp_all add: b_def c_def)
  ultimately show "\<exists>a b c. s = a @ ''@'' @ b @ ''.'' @ c \<and> a \<noteq> [] \<and> b \<noteq> [] \<and> c \<noteq> []
        \<and> list_all email_char a \<and> list_all email_char b \<and> list_all email_char c"
    using a by blast
next
  assume "\<exists>a b c. s = a @ ''@'' @ b @ ''.'' @ c \<and> a \<noteq> [] \<and> b \<noteq> [] \<and> c \<noteq> []
        \<and> list_all email_char a \<and> list_all email_char b \<and> list_all email_char c"
  then obtain a b c where s: "s = a @ ''@'' @ b @ ''.'' @ c"
    and ne: "a \<noteq> []" "b \<noteq> []" "c \<noteq> []"
    and ok: "list_all email_char a" "list_all email_char b" "list_all email_char c"
    by blast
  from ok have no_at: "\<forall>x \<in> set a. x \<noteq> CHR ''@''"
    by (auto simp: list_all_iff email_char_def)
  then have tw: "takeWhile (\<lambda>c. c \<noteq> CHR ''@'') s = a"
    and dw: "dropWhile (\<lambda>c. c \<noteq> CHR ''@'') s = ''@'' @ b @ ''.'' @ c"
    unfolding s by (simp_all add: takeWhile_append2 dropWhile_append2)
  have dotc: "email_char CHR ''.''"
    by (simp add: email_char_def is_space_def)
  from ne obtain b0 bs where b: "b = b0 # bs"
    by (cases b) auto
  from ne have "butlast (bs @ ''.'' @ c) = bs @ ''.'' @ butlast c"
    by (simp add: butlast_append)
  with ne ok dotc show "matches_email s"
    by (simp add: matches_email_def Let_def tw dw b)
qed

lemmas validator_defs = trim_def is_space_def is_alpha_def is_digit_def matches_letters_def
  matches_phone_def phone_char_def matches_email_def email_char_def




text \<open>
  C4. \<^verbatim>\<open>validateUserData({}, false)\<close> returns exactly six messages, one per required
  field, in the order name, email, aboutYou, birthday, mobileNumber, country. In update
  mode a record that only has a name is checked on the name alone, against the rule
  "trimmed length at least 2"; so \<^verbatim>\<open>validateUserData({name: "Bob"}, true)\<close> returns the
  empty list.
\<close>

theorem validateUserData_examples:
  "validateUserData [] False =
     Inr [''Name is required and must be at least 2 characters'',
          ''Valid email is required'',
          ''About You is required and must be at least 10 characters'',
          ''Birthday is required'',
          ''Mobile number is required'',
          ''Country is required'']
   \<and> validateUserData [(''name'', JStr s)] True =
       Inr (if length (trim s) < 2
            then [''Name is required and must be at least 2 characters''] else [])
   \<and> validateUserData [(''name'', JStr ''Bob'')] True = Inr []"
  by (auto simp: validateUserData_def obj_get_def check_length_def check_email_def
        check_birthday_def checked_def validator_defs)

theorem validateUserData_examples_witness:
  "\<not> length (trim ''Bob'') < 2 \<and> validateUserData [(''name'', JStr ''Bob'')] True = Inr []"
proof -
  have long: "\<not> length (trim ''Bob'') < 2"
    by (simp add: validator_defs)
  from validateUserData_examples [of "''Bob''", THEN conjunct2, THEN conjunct1] long
  have "validateUserData [(''name'', JStr ''Bob'')] True = Inr []"
    by simp
  with long show ?thesis
    by blast
qed

subsection \<open>Form controller\<close>









text \<open>\<open>includes_str\<close> is the containment of a contiguous substring.\<close>

lemma includes_str_iff: "includes_str s sub \<longleftrightarrow> (\<exists>ps ss. s = ps @ sub @ ss)"
proof (induction s)
  case Nil
  then show ?case by auto
next
  case (Cons c cs)
  have here: "take (length sub) (c # cs) = sub \<longleftrightarrow> (\<exists>ss. c # cs = sub @ ss)"
    by (metis append_eq_conv_conj append_take_drop_id)
  have "(\<exists>ps ss. c # cs = ps @ sub @ ss)
      \<longleftrightarrow> (\<exists>ss. c # cs = sub @ ss) \<or> (\<exists>ps ss. cs = ps @ sub @ ss)"
  proof
    assume "\<exists>ps ss. c # cs = ps @ sub @ ss"
    then obtain ps ss where split: "c # cs = ps @ sub @ ss"
      by blast
    show "(\<exists>ss. c # cs = sub @ ss) \<or> (\<exists>ps ss. cs = ps @ sub @ ss)"
    proof (cases ps)
      case Nil
      with split show ?thesis by auto
    next
      case (Cons p ps')
      with split have "cs = ps' @ sub @ ss" by simp
      then show ?thesis by blast
    qed
  next
    assume "(\<exists>ss. c # cs = sub @ ss) \<or> (\<exists>ps ss. cs = ps @ sub @ ss)"
    then show "\<exists>ps ss. c # cs = ps @ sub @ ss"
    proof
      assume "\<exists>ss. c # cs = sub @ ss"
      then obtain ss where "c # cs = [] @ sub @ ss" by auto
      then show ?thesis by blast
    next
      assume "\<exists>ps ss. cs = ps @ sub @ ss"
      then obtain ps ss where "c # cs = (c # ps) @ sub @ ss" by auto
      then show ?thesis by blast
    qed
  qed
  with Cons here show ?case
    by simp
qed

lemma isEditMode_user_id: "isEditMode p \<Longrightarrow> get_prop (user p) ''id'' = Inr (user_id p)"
  by (cases "user p") (auto simp: isEditMode_def user_id_def)

lemma try_submit_failure:
  assumes "formatDateForAPI (birthday_arg (birthday (formData st))) = Inr b"
    and "submit_call p h (apiData (formData st) b) = (Inl e, reqs)"
  shows "try_submit p h st
           = (Some e, st, submit_effect p (apiData (formData st) b) # map Fetch reqs)"
  using assms
  by (auto simp: try_submit_def submit_call_def submit_effect_def after_call_def
        isEditMode_user_id)

lemma failure_entry_on_failure:
  "errors st = [] \<Longrightarrow> on_failure p e st = st\<lparr>errors := [failure_entry p e]\<rparr>"
  by (simp add: on_failure_def failure_entry_def)

text \<open>
  C6 (as amended). When validation passes and the API call of the form fails with an
  error \<open>e\<close>, the loading flag is cleared and the error map gets exactly one entry,
  chosen by the first test that succeeds: if the message contains "email already exists",
  the entry is on \<open>email\<close>; otherwise, if it contains "mobile number", the entry is on
  \<open>mobileNumber\<close>; otherwise the message itself (or "Failed to create user" /
  "Failed to update user" when the message is empty) is attached under \<open>general\<close>.
\<close>

theorem handleSubmit_failure:
  "(validateForm (time h) (formData st) = []
      \<and> formatDateForAPI (birthday_arg (birthday (formData st))) = Inr b
      \<and> submit_call p h (apiData (formData st) b) = (Inl e, reqs)
    \<longrightarrow> handleSubmit p h st
          = (st\<lparr>errors := [failure_entry p e], touched := all_touched, loading := False\<rparr>,
             submit_effect p (apiData (formData st) b) # map Fetch reqs)
        \<and> loading (fst (handleSubmit p h st)) = False
        \<and> map fst (errors (fst (handleSubmit p h st))) = [fst (failure_entry p e)])
   \<and> (includes_str (message e) ''email already exists'' \<longrightarrow>
        failure_entry p e = (''email'', ''A user with this email already exists''))
   \<and> (\<not> includes_str (message e) ''email already exists''
        \<and> includes_str (message e) ''mobile number'' \<longrightarrow>
        failure_entry p e = (''mobileNumber'', ''A user with this mobile number already exists''))
   \<and> (\<not> includes_str (message e) ''email already exists''
        \<and> \<not> includes_str (message e) ''mobile number'' \<longrightarrow>
        failure_entry p e
          = (''general'',
             if message e \<noteq> [] then message e
             else ''Failed to '' @ (if isEditMode p then ''update'' else ''create'') @ '' user''))
   \<and> fst (failure_entry p e) \<in> {''email'', ''mobileNumber'', ''general''}"
proof -
  have run: "handleSubmit p h st
      = (st\<lparr>errors := [failure_entry p e], touched := all_touched, loading := False\<rparr>,
         submit_effect p (apiData (formData st) b) # map Fetch reqs)"
    if valid: "validateForm (time h) (formData st) = []"
      and date: "formatDateForAPI (birthday_arg (birthday (formData st))) = Inr b"
      and failed: "submit_call p h (apiData (formData st) b) = (Inl e, reqs)"
  proof -
    let ?st1 = "st\<lparr>errors := [], touched := all_touched, loading := True\<rparr>"
    from date failed
    have "try_submit p h ?st1
        = (Some e, ?st1, submit_effect p (apiData (formData st) b) # map Fetch reqs)"
      using try_submit_failure [of ?st1 b p h e reqs] by simp
    with valid show ?thesis
      by (simp add: handleSubmit_def Let_def failure_entry_on_failure)
  qed
  have keys: "fst (failure_entry p e) \<in> {''email'', ''mobileNumber'', ''general''}"
    by (simp add: failure_entry_def)
  from run keys show ?thesis
    by (auto simp: failure_entry_def)
qed

theorem handleSubmit_failure_witness:
  "validateForm (time (sample_host duplicate_net)) (formData sample_state) = []
   \<and> formatDateForAPI (birthday_arg (birthday (formData sample_state))) = Inr (JStr ''1995-06-15'')
   \<and> submit_call sample_props (sample_host duplicate_net)
         (apiData (formData sample_state) (JStr ''1995-06-15''))
       = (Inl (Error ''User with this email already exists''),
          [\<lparr>url = ''http://h/api/users'', http_method = ''POST'', headers = json_headers,
            payload = Some (apiData sample_form (JStr ''1995-06-15''))\<rparr>])
   \<and> includes_str ''User with this email already exists'' ''email already exists''
   \<and> fst (handleSubmit sample_props (sample_host duplicate_net) sample_state)
       = sample_state\<lparr>errors := [(''email'', ''A user with this email already exists'')],
                       touched := all_touched, loading := False\<rparr>"
proof -
  let ?h = "sample_host duplicate_net"
  let ?req = "\<lparr>url = ''http://h/api/users'', http_method = ''POST'', headers = json_headers,
            payload = Some (apiData sample_form (JStr ''1995-06-15''))\<rparr>"
  have valid: "validateForm (time ?h) (formData sample_state) = []"
    by code_simp
  have date: "formatDateForAPI (birthday_arg (birthday (formData sample_state)))
      = Inr (JStr ''1995-06-15'')"
    by code_simp
  have failed: "submit_call sample_props ?h (apiData (formData sample_state) (JStr ''1995-06-15''))
       = (Inl (Error ''User with this email already exists''), [?req])"
    by (simp add: submit_call_def isEditMode_def sample_props_def sample_host_def sample_state_def
          createUser_def send_def duplicate_net_def handleResponse_def ok_def js_or_def apiData_def)
  have found: "includes_str ''User with this email already exists'' ''email already exists''"
    by simp
  note failure = handleSubmit_failure [of ?h sample_state "JStr ''1995-06-15''" sample_props
      "Error ''User with this email already exists''" "[?req]"]
  from failure [THEN conjunct2, THEN conjunct1] found
  have entry: "failure_entry sample_props (Error ''User with this email already exists'')
      = (''email'', ''A user with this email already exists'')"
    by simp
  from failure [THEN conjunct1] valid date failed
  have "fst (handleSubmit sample_props ?h sample_state)
       = sample_state\<lparr>errors := [(''email'', ''A user with this email already exists'')],
                       touched := all_touched, loading := False\<rparr>"
    unfolding entry by simp
  with valid date failed found show ?thesis
    by blast
qed

text \<open>The claim as worded fails on a message that contains both substrings: it contains
  "mobile number", yet no error is set on the mobileNumber field.\<close>

theorem handleSubmit_both_substrings_counterexample:
  "includes_str ''email already exists, and so does the mobile number'' ''mobile number''
   \<and> errors (fst (handleSubmit sample_props (sample_host conflict_net) sample_state))
       = [(''email'', ''A user with this email already exists'')]
   \<and> map_of (errors (fst (handleSubmit sample_props (sample_host conflict_net) sample_state)))
         ''mobileNumber'' = None"
  by code_simp

end
